theory Spec2Isabelle
  imports Complex_Main
begin

section \<open>Adaptive-threshold spiking detector and VVI pacing controller\<close>

text \<open>
  A shallow embedding of \<^verbatim>\<open>adaptive_threshold.py\<close>: the class
  \<^verbatim>\<open>PacemakerController\<close> (constructor, \<^verbatim>\<open>reset\<close>, \<^verbatim>\<open>step\<close>), the class
  \<^verbatim>\<open>AdaptiveLIFDetector\<close> (constructor, \<^verbatim>\<open>reset\<close>, \<^verbatim>\<open>run\<close>) and the way
  \<^verbatim>\<open>run_closed_loop\<close> calls \<^verbatim>\<open>step\<close> once per sample.

  Python floats are modelled as exact reals: rounding, infinities and NaN are outside the
  model. The constants \<^verbatim>\<open>1e9\<close>, \<^verbatim>\<open>1e-9\<close> and \<^verbatim>\<open>1e-12\<close> are the reals
  \<open>10^9\<close>, \<open>1/10^9\<close> and \<open>1/10^12\<close>. Every place where Python raises is a branch of the
  model that returns \<open>Inl\<close> of the exception. A numpy division by a zero time constant
  (\<^verbatim>\<open>tau_m\<close>, \<^verbatim>\<open>tau_theta\<close>) does not raise: it yields an infinity or NaN, which
  the reals do not have, so the values of \<open>v\<close> and \<open>theta\<close> are modelled for non-zero
  time constants only.
\<close>

datatype error = ZeroDivisionError | ValueError

subsection \<open>PacemakerController\<close>

text \<open>
  The attributes of a \<^verbatim>\<open>PacemakerController\<close> object. The attributes \<^verbatim>\<open>fs\<close> and
  \<^verbatim>\<open>refractory_s\<close> carry the prefix \<open>pm_\<close> here, because the detector has attributes
  of the same names.
\<close>

record controller =
  pm_fs :: real
  mode :: string
  escape_interval_s :: real
  blanking_s :: real
  pm_refractory_s :: real
  pulse_amp :: real
  pulse_width_s :: real
  capture_threshold :: real
  last_event_time :: real
  blank_until :: real
  refract_until :: real
  pacing_history :: "(real \<times> bool) list"
  sensed_history :: "real list"

text \<open>\<^verbatim>\<open>reset\<close> (lines 141-145).\<close>

definition controller_reset :: "controller \<Rightarrow> controller" where
  "controller_reset c =
     c\<lparr>last_event_time := - (10 ^ 9), blank_until := - (10 ^ 9),
       refract_until := - (10 ^ 9), pacing_history := [], sensed_history := []\<rparr>"

text \<open>
  \<^verbatim>\<open>__init__\<close> (lines 127-139). The only operation that can raise is
  \<^verbatim>\<open>60.0 / lower_rate_bpm\<close>; no argument is validated.
\<close>

definition controller_init ::
  "real \<Rightarrow> string \<Rightarrow> real \<Rightarrow> real \<Rightarrow> real \<Rightarrow> real \<Rightarrow> real \<Rightarrow> real \<Rightarrow> error + controller" where
  "controller_init fs_arg mode_arg lower_rate_bpm blanking_ms refractory_ms
       pulse_amplitude_mV pulse_width_ms capture_threshold_mV =
     (if lower_rate_bpm = 0 then Inl ZeroDivisionError
      else Inr (controller_reset
        \<lparr>pm_fs = fs_arg, mode = mode_arg,
         escape_interval_s = 60 / lower_rate_bpm,
         blanking_s = blanking_ms / 1000,
         pm_refractory_s = refractory_ms / 1000,
         pulse_amp = pulse_amplitude_mV,
         pulse_width_s = pulse_width_ms / 1000,
         capture_threshold = capture_threshold_mV,
         last_event_time = 0, blank_until = 0, refract_until = 0,
         pacing_history = [], sensed_history = []\<rparr>))"

text \<open>
  \<^verbatim>\<open>step\<close> (lines 147-162). The argument \<open>u\<close> is the value that
  \<^verbatim>\<open>np.random.rand()\<close> returns if the step draws one (it does so only when it paces).
  The result is the updated object and the triple \<open>(pace, captured, accepted)\<close>.
\<close>

definition step ::
  "controller \<Rightarrow> real \<Rightarrow> bool \<Rightarrow> real \<Rightarrow> controller \<times> bool \<times> bool \<times> bool" where
  "step c t_s detector_spike u =
     (let accepted = (detector_spike \<and> t_s \<ge> blank_until c \<and> t_s \<ge> refract_until c);
          c1 = (if accepted
                then c\<lparr>sensed_history := sensed_history c @ [t_s],
                       last_event_time := t_s,
                       refract_until := t_s + pm_refractory_s c\<rparr>
                else c);
          time_since_last = t_s - last_event_time c1
      in if time_since_last \<ge> escape_interval_s c1
         then let cap_prob = 1 / (1 + exp (- 3 * (pulse_amp c1 - capture_threshold c1)));
                  captured = (u < cap_prob)
              in (c1\<lparr>last_event_time := t_s,
                      blank_until := t_s + blanking_s c1,
                      pacing_history := pacing_history c1 @ [(t_s, captured)]\<rparr>,
                  True, captured, accepted)
         else (c1, False, False, accepted))"

text \<open>
  The loop of \<^verbatim>\<open>run_closed_loop\<close> (lines 181-184) as the controller sees it: sample
  \<open>i\<close> is presented at time \<^verbatim>\<open>t[i]\<close>, the \<open>i\<close>-th entry of
  \<^verbatim>\<open>np.arange(0, duration_s, 1/fs)\<close>, together with the flag \<^verbatim>\<open>spikes[i] == 1\<close> of
  whichever detector run is current. The list gives, per sample, that flag and the random
  draw; the result lists, per sample, the time, the controller after the step and the
  returned triple.
\<close>

fun sim_steps ::
  "real \<Rightarrow> nat \<Rightarrow> controller \<Rightarrow> (bool \<times> real) list
     \<Rightarrow> (real \<times> controller \<times> bool \<times> bool \<times> bool) list" where
  "sim_steps fs i c [] = []"
| "sim_steps fs i c ((detector_spike, u) # rest) =
     (let t_s = real i * (1 / fs);
          r = step c t_s detector_spike u
      in (t_s, r) # sim_steps fs (Suc i) (fst r) rest)"

text \<open>The default controller of the demonstration run (lines 214-220), after construction.\<close>

definition demo_controller :: controller where
  "demo_controller =
     controller_reset
       \<lparr>pm_fs = 250, mode = ''VVI'', escape_interval_s = 60 / 50,
        blanking_s = 40 / 1000, pm_refractory_s = 200 / 1000,
        pulse_amp = 5 / 2, pulse_width_s = (1 / 2) / 1000, capture_threshold = 11 / 10,
        last_event_time = 0, blank_until = 0, refract_until = 0,
        pacing_history = [], sensed_history = []\<rparr>"

text \<open>
  The same controller constructed for a run at \<open>sr\<close> samples per second
  (\<^verbatim>\<open>PacemakerController(fs=sr, **pm_params)\<close>).
\<close>

definition demo_controller_at :: "real \<Rightarrow> controller" where
  "demo_controller_at sr = demo_controller\<lparr>pm_fs := sr\<rparr>"



definition states ::
  "(real \<times> controller \<times> bool \<times> bool \<times> bool) list \<Rightarrow> controller list" where
  "states rs = map (\<lambda>(t_s, c, r). c) rs"





fun nondecreasing :: "real list \<Rightarrow> bool" where
  "nondecreasing (x # y # zs) = (x \<le> y \<and> nondecreasing (y # zs))"
| "nondecreasing zs = True"

subsection \<open>AdaptiveLIFDetector\<close>

text \<open>
  The attributes of an \<^verbatim>\<open>AdaptiveLIFDetector\<close> object. \<^verbatim>\<open>v\<close> and \<^verbatim>\<open>theta\<close> do
  not exist before the first \<^verbatim>\<open>reset\<close>; they are the empty list here, and nothing
  reads them before \<^verbatim>\<open>reset\<close> has set them.
\<close>

record detector =
  fs :: real
  dt :: real
  tau_m :: real
  tau_theta :: real
  theta_base :: real
  theta_inc :: real
  v_reset :: real
  v_rest :: real
  gain :: real
  dead_zone :: real
  refractory_s :: real
  homeo_rate :: real
  target_spikes_per_sec :: real
  homeo_window_s :: real
  spike_times :: "real list"
  v :: "real list"
  theta :: "real list"

text \<open>
  \<^verbatim>\<open>__init__\<close> (lines 55-79); \<open>dt_arg = None\<close> is Python's \<^verbatim>\<open>dt=None\<close>. The only
  operation that can raise is \<^verbatim>\<open>1/fs\<close>, evaluated when \<^verbatim>\<open>dt\<close> is \<^verbatim>\<open>None\<close>; no
  argument is validated.
\<close>

definition detector_init ::
  "real \<Rightarrow> real option \<Rightarrow> real \<Rightarrow> real \<Rightarrow> real \<Rightarrow> real \<Rightarrow> real \<Rightarrow> real \<Rightarrow> real \<Rightarrow> real
     \<Rightarrow> real \<Rightarrow> real \<Rightarrow> real \<Rightarrow> real \<Rightarrow> error + detector" where
  "detector_init fs_arg dt_arg tau_m_arg tau_theta_arg theta_base_arg theta_inc_arg
       v_reset_arg v_rest_arg gain_arg dead_zone_arg refractory_ms homeo_rate_arg
       target_arg homeo_window_arg =
     (if dt_arg = None \<and> fs_arg = 0 then Inl ZeroDivisionError
      else Inr
        \<lparr>fs = fs_arg,
         dt = (case dt_arg of None \<Rightarrow> 1 / fs_arg | Some x \<Rightarrow> x),
         tau_m = tau_m_arg, tau_theta = tau_theta_arg,
         theta_base = theta_base_arg, theta_inc = theta_inc_arg,
         v_reset = v_reset_arg, v_rest = v_rest_arg,
         gain = gain_arg, dead_zone = dead_zone_arg,
         refractory_s = refractory_ms / 1000,
         homeo_rate = homeo_rate_arg,
         target_spikes_per_sec = target_arg,
         homeo_window_s = homeo_window_arg,
         spike_times = [], v = [], theta = []\<rparr>)"

text \<open>\<^verbatim>\<open>reset\<close> (lines 81-84).\<close>

definition detector_reset :: "detector \<Rightarrow> nat \<Rightarrow> detector" where
  "detector_reset d len =
     d\<lparr>v := replicate len 0, theta := replicate len (theta_base d), spike_times := []\<rparr>"

text \<open>
  The numpy and Python primitives that \<^verbatim>\<open>run\<close> uses: \<^verbatim>\<open>np.clip(x, lo, hi)\<close> on one
  entry, \<^verbatim>\<open>np.median\<close> of a non-empty array (the middle entry of the sorted array, or
  the mean of the two middle entries), and \<^verbatim>\<open>int(x)\<close> on a float (truncation towards
  zero).
\<close>

definition np_clip :: "real \<Rightarrow> real \<Rightarrow> real \<Rightarrow> real" where
  "np_clip x lo hi = min (max x lo) hi"

definition median :: "real list \<Rightarrow> real" where
  "median xs =
     (let s = sort xs; n = length s
      in if odd n then s ! (n div 2) else (s ! (n div 2 - 1) + s ! (n div 2)) / 2)"

definition py_int :: "real \<Rightarrow> int" where
  "py_int x = (if 0 \<le> x then \<lfloor>x\<rfloor> else \<lceil>x\<rceil>)"

text \<open>
  The preprocessing of \<^verbatim>\<open>run\<close> (lines 89-96) on a non-empty signal:
  \<^verbatim>\<open>ecg_shifted\<close> (lines 89-91; the division by the shifted maximum happens only when
  that maximum is positive), the denominator \<^verbatim>\<open>mad\<close> (lines 92-93) and the drive
  current \<^verbatim>\<open>I_t\<close> (lines 94-96).
\<close>

definition ecg_shifted :: "real list \<Rightarrow> real list" where
  "ecg_shifted ecg_filtered =
     (let lo = Min (set ecg_filtered);
          shifted = map (\<lambda>x. x - lo) ecg_filtered;
          hi = Max (set shifted)
      in if hi > 0 then map (\<lambda>x. x / (hi + 1 / 10 ^ 12)) shifted else shifted)"

definition mad :: "real list \<Rightarrow> real" where
  "mad shifted =
     (let med = median shifted
      in median (map (\<lambda>x. \<bar>x - med\<bar>) shifted) + 1 / 10 ^ 9)"

definition drive_current :: "detector \<Rightarrow> real list \<Rightarrow> real list" where
  "drive_current d ecg_filtered =
     (let shifted = ecg_shifted ecg_filtered;
          med = median shifted;
          ecg_std = map (\<lambda>x. np_clip ((x - med) / mad shifted) (- 5) 10) shifted
      in map (\<lambda>x. gain d * max (x - dead_zone d) 0) ecg_std)"

text \<open>
  One iteration of the loop of \<^verbatim>\<open>run\<close> (lines 101-120) at index \<open>t\<close>. The loop state
  is the detector object, the local array \<^verbatim>\<open>spikes\<close> and the local
  \<^verbatim>\<open>last_spike_time\<close>. Python raises \<^verbatim>\<open>ZeroDivisionError\<close> at \<^verbatim>\<open>t/self.fs\<close> when
  \<^verbatim>\<open>fs\<close> is zero and at \<^verbatim>\<open>t % int(...)\<close> when the window is shorter than one
  sample; the divisions by \<^verbatim>\<open>tau_m\<close> and \<^verbatim>\<open>tau_theta\<close> are numpy divisions and
  never raise. Inside \<^verbatim>\<open>run\<close> every index read or written is within the arrays.
\<close>

definition run_iter ::
  "real list \<Rightarrow> nat \<Rightarrow> detector \<times> int list \<times> real \<Rightarrow> error + detector \<times> int list \<times> real" where
  "run_iter I_t t st =
     (case st of (d, spikes, last_spike_time) \<Rightarrow>
        let dv = dt d * (- (v d ! t - v_rest d) / tau_m d + I_t ! t);
            d1 = d\<lparr>v := (v d)[Suc t := v d ! t + dv]\<rparr>
        in if fs d1 = 0 then Inl ZeroDivisionError
           else
             let refractory = (real t / fs d1 - last_spike_time < refractory_s d1);
                 (d2, spikes2, last2) =
                   (if \<not> refractory \<and> v d1 ! Suc t \<ge> theta d1 ! t
                    then (d1\<lparr>v := (v d1)[Suc t := v_reset d1],
                              theta := (theta d1)[Suc t := theta d1 ! t + theta_inc d1],
                              spike_times := spike_times d1 @ [real (Suc t) / fs d1]\<rparr>,
                          spikes[Suc t := 1],
                          real t / fs d1)
                    else (d1\<lparr>theta := (theta d1)[Suc t := theta d1 ! t
                                + dt d1 * (- (theta d1 ! t - theta_base d1) / tau_theta d1)]\<rparr>,
                          spikes,
                          last_spike_time))
             in if py_int (homeo_window_s d2 * fs d2) = 0 then Inl ZeroDivisionError
                else if int t mod py_int (homeo_window_s d2 * fs d2) = 0 \<and> t > 0
                  then
                    let now = real (Suc t) / fs d2;
                        wins = filter (\<lambda>s. s \<ge> now - homeo_window_s d2) (spike_times d2);
                        rate = real (length wins) / max (1 / 10 ^ 9) (homeo_window_s d2);
                        delta = homeo_rate d2 * (target_spikes_per_sec d2 - rate)
                    in Inr (d2\<lparr>theta_base := np_clip (theta_base d2 + delta) (1 / 1000) 1\<rparr>,
                            spikes2, last2)
                  else Inr (d2, spikes2, last2))"

text \<open>The loop over a list of indices; it stops at the first exception.\<close>

fun run_loop ::
  "real list \<Rightarrow> nat list \<Rightarrow> detector \<times> int list \<times> real \<Rightarrow> error + detector \<times> int list \<times> real" where
  "run_loop I_t [] st = Inr st"
| "run_loop I_t (t # ts) st =
     (case run_iter I_t t st of Inl e \<Rightarrow> Inl e | Inr st' \<Rightarrow> run_loop I_t ts st')"

text \<open>
  The state of the loop of \<^verbatim>\<open>run\<close> after its first \<open>k\<close> iterations
  (\<^verbatim>\<open>t = 0, ..., k-1\<close>), for a non-empty signal.
\<close>

definition loop_state ::
  "detector \<Rightarrow> real list \<Rightarrow> nat \<Rightarrow> error + detector \<times> int list \<times> real" where
  "loop_state d ecg_filtered k =
     (let T = length ecg_filtered;
          d0 = detector_reset d T
      in run_loop (drive_current d0 ecg_filtered) [0..<k] (d0, replicate T 0, - (10 ^ 9)))"

text \<open>
  \<^verbatim>\<open>run\<close> (lines 86-121): the updated detector object and the returned
  \<^verbatim>\<open>(I_t, v, theta, spikes)\<close>. \<^verbatim>\<open>np.min\<close> of an empty array raises
  \<^verbatim>\<open>ValueError\<close>.
\<close>

definition run ::
  "detector \<Rightarrow> real list
     \<Rightarrow> error + detector \<times> real list \<times> real list \<times> real list \<times> int list" where
  "run d ecg_filtered =
     (let T = length ecg_filtered;
          d0 = detector_reset d T
      in if ecg_filtered = [] then Inl ValueError
         else
           let I_t = drive_current d0 ecg_filtered
           in case run_loop I_t [0..<T - 1] (d0, replicate T 0, - (10 ^ 9)) of
                Inl e \<Rightarrow> Inl e
              | Inr (d', spikes, last_spike_time) \<Rightarrow> Inr (d', I_t, v d', theta d', spikes))"


text \<open>
  Names for the parts of one loop iteration on entry state \<open>(d, spikes, last_spike_time)\<close>:
  the integrated potential \<^verbatim>\<open>v[t] + dv\<close> (lines 101-102), the spike condition
  (lines 104-105), the cadence test of the homeostatic update (line 115) and the value the
  update assigns to \<^verbatim>\<open>theta_base\<close> (lines 116-120) given the current
  \<^verbatim>\<open>spike_times\<close>.
\<close>

definition integrated :: "detector \<Rightarrow> real list \<Rightarrow> nat \<Rightarrow> real" where
  "integrated d I_t t = v d ! t + dt d * (- (v d ! t - v_rest d) / tau_m d + I_t ! t)"

definition fires :: "detector \<Rightarrow> real list \<Rightarrow> nat \<Rightarrow> real \<Rightarrow> bool" where
  "fires d I_t t last_spike_time =
     (\<not> (real t / fs d - last_spike_time < refractory_s d) \<and> integrated d I_t t \<ge> theta d ! t)"

definition homeo_due :: "detector \<Rightarrow> nat \<Rightarrow> bool" where
  "homeo_due d t = (int t mod py_int (homeo_window_s d * fs d) = 0 \<and> t > 0)"

definition homeo_theta_base :: "detector \<Rightarrow> real list \<Rightarrow> nat \<Rightarrow> real" where
  "homeo_theta_base d sts t =
     np_clip (theta_base d + homeo_rate d * (target_spikes_per_sec d
        - real (length (filter (\<lambda>s. s \<ge> real (Suc t) / fs d - homeo_window_s d) sts))
            / max (1 / 10 ^ 9) (homeo_window_s d))) (1 / 1000) 1"

text \<open>
  The attributes that \<^verbatim>\<open>run\<close> never assigns agree in two detector objects, and the
  shape of a loop state of a run over \<open>T\<close> samples.
\<close>

definition same_config :: "detector \<Rightarrow> detector \<Rightarrow> bool" where
  "same_config d d' =
     (fs d' = fs d \<and> dt d' = dt d \<and> tau_m d' = tau_m d \<and> tau_theta d' = tau_theta d
      \<and> theta_inc d' = theta_inc d \<and> v_reset d' = v_reset d \<and> v_rest d' = v_rest d
      \<and> gain d' = gain d \<and> dead_zone d' = dead_zone d \<and> refractory_s d' = refractory_s d
      \<and> homeo_rate d' = homeo_rate d \<and> target_spikes_per_sec d' = target_spikes_per_sec d
      \<and> homeo_window_s d' = homeo_window_s d)"

definition loop_ok :: "detector \<Rightarrow> nat \<Rightarrow> detector \<times> int list \<times> real \<Rightarrow> bool" where
  "loop_ok d T st =
     (case st of (dk, sp, l) \<Rightarrow>
        same_config d dk \<and> length (v dk) = T \<and> length (theta dk) = T \<and> length sp = T)"

text \<open>A detector with the constructor's default arguments (lines 55-64).\<close>

definition default_detector :: detector where
  "default_detector =
     \<lparr>fs = 250, dt = 1 / 250, tau_m = 3 / 100, tau_theta = 7 / 10,
      theta_base = 15 / 100, theta_inc = 25 / 100, v_reset = 0, v_rest = 0,
      gain = 10, dead_zone = 18 / 100, refractory_s = 150 / 1000,
      homeo_rate = 8 / 10000, target_spikes_per_sec = 1, homeo_window_s = 6,
      spike_times = [], v = [], theta = []\<rparr>"

text \<open>
  A detector constructed with \<^verbatim>\<open>fs=10, homeo_window_s=0.2\<close> and the other arguments at
  their defaults, a six-sample signal with two beats, and the detector object after
  \<^verbatim>\<open>run\<close> on that signal.
\<close>

definition detector_10hz :: detector where
  "detector_10hz = default_detector\<lparr>fs := 10, dt := 1 / 10, homeo_window_s := 1 / 5\<rparr>"

definition two_beats :: "real list" where
  "two_beats = [1, 0, 0, 1, 0, 0]"

definition two_beats_detector :: detector where
  "two_beats_detector =
     detector_10hz\<lparr>theta_base := 359 / 2500, spike_times := [1 / 10, 2 / 5],
       v := [0, 0, 0, 0, 0, 0],
       theta := [3 / 20, 2 / 5, 51 / 140, 327 / 980, 143 / 245, 446983 / 857500]\<rparr>"

section \<open>Properties of the controller\<close>

subsection \<open>Auxiliary facts about \<open>step\<close> and the sample loop\<close>

lemma one_plus_exp_pos: "0 < 1 + exp (x::real)"
  by (simp add: add_pos_pos)

lemma step_config:
  "step c t_s spk u = (c', r) \<Longrightarrow>
     escape_interval_s c' = escape_interval_s c \<and> blanking_s c' = blanking_s c
       \<and> pm_refractory_s c' = pm_refractory_s c"
  by (auto simp: step_def Let_def split: if_splits)



lemma grid_Suc: "real (Suc i) * (1 / sr) = real i * (1 / sr) + 1 / sr"
  by (simp add: add_divide_distrib)





lemma step_blank_mono:
  assumes "step c t_s spk u = (c', r)"
    and "blank_until c \<le> t_s + blanking_s c" and "refract_until c \<le> t_s + pm_refractory_s c"
  shows "blank_until c \<le> blank_until c' \<and> refract_until c \<le> refract_until c'
     \<and> blank_until c' \<le> t_s + blanking_s c \<and> refract_until c' \<le> t_s + pm_refractory_s c"
  using assms by (auto simp: step_def Let_def split: if_splits)

lemma timers_sorted:
  assumes "0 < sr"
    and "blank_until c \<le> real i * (1 / sr) + blanking_s c"
    and "refract_until c \<le> real i * (1 / sr) + pm_refractory_s c"
  shows "nondecreasing (map blank_until (c # states (sim_steps sr i c inputs)))
     \<and> nondecreasing (map refract_until (c # states (sim_steps sr i c inputs)))"
  using assms
proof (induction inputs arbitrary: i c)
  case Nil
  then show ?case by (simp add: states_def)
next
  case (Cons a inputs)
  obtain spk u where a: "a = (spk, u)" by (cases a)
  obtain c' r where st: "step c (real i * (1 / sr)) spk u = (c', r)"
    by (cases "step c (real i * (1 / sr)) spk u")
  note m = step_blank_mono [OF st Cons.prems(2) Cons.prems(3)]
  note cfg = step_config [OF st]
  have d: "0 < 1 / sr" using Cons.prems(1) by simp
  have b: "blank_until c' \<le> real (Suc i) * (1 / sr) + blanking_s c'"
    using m cfg d grid_Suc [of i sr] by linarith
  have r: "refract_until c' \<le> real (Suc i) * (1 / sr) + pm_refractory_s c'"
    using m cfg d grid_Suc [of i sr] by linarith
  from Cons.IH [OF Cons.prems(1) b r]
  have "nondecreasing (map blank_until (c' # states (sim_steps sr (Suc i) c' inputs)))
     \<and> nondecreasing (map refract_until (c' # states (sim_steps sr (Suc i) c' inputs)))" .
  moreover have "states (sim_steps sr i c (a # inputs)) = c' # states (sim_steps sr (Suc i) c' inputs)"
    using a st by (simp add: states_def Let_def)
  ultimately show ?case using m by simp
qed


subsection \<open>Claims about the controller\<close>

text \<open>
  C10 (quiescent-step frame property). For every controller state and every time \<open>t_s\<close>:
  if no sense can be accepted (the detector reports no spike, or the step falls into the
  blanking or the refractory window) and the escape interval has not elapsed since
  \<open>last_event_time\<close>, then \<open>step\<close> returns \<open>(False, False, False)\<close> and the
  controller object is unchanged: \<open>last_event_time\<close>, \<open>blank_until\<close>,
  \<open>refract_until\<close>, \<open>pacing_history\<close> and \<open>sensed_history\<close> keep their values.
\<close>

theorem step_quiescent_frame:
  assumes "\<not> detector_spike \<or> t_s < blank_until c \<or> t_s < refract_until c"
    and "t_s - last_event_time c < escape_interval_s c"
  shows "step c t_s detector_spike u = (c, False, False, False)"
  using assms by (auto simp: step_def Let_def)

text \<open>C10 at the default controller, 100 ms after an event, inside a blanking window that lasts until 200 ms, with a detector spike.\<close>

theorem step_quiescent_frame_witness:
  "(1/10 :: real) < blank_until (demo_controller\<lparr>last_event_time := 0, blank_until := 1/5\<rparr>)
   \<and> 1/10 - last_event_time (demo_controller\<lparr>last_event_time := 0, blank_until := 1/5\<rparr>)
        < escape_interval_s (demo_controller\<lparr>last_event_time := 0, blank_until := 1/5\<rparr>)
   \<and> step (demo_controller\<lparr>last_event_time := 0, blank_until := 1/5\<rparr>) (1/10) True 0
        = (demo_controller\<lparr>last_event_time := 0, blank_until := 1/5\<rparr>, False, False, False)"
proof -
  let ?c = "demo_controller\<lparr>last_event_time := 0, blank_until := 1/5\<rparr>"
  have a: "(1/10 :: real) < blank_until ?c"
    by (simp add: demo_controller_def controller_reset_def)
  have b: "1/10 - last_event_time ?c < escape_interval_s ?c"
    by (simp add: demo_controller_def controller_reset_def)
  from a have a': "\<not> True \<or> (1/10 :: real) < blank_until ?c \<or> (1/10 :: real) < refract_until ?c"
    by blast
  from a b step_quiescent_frame [OF a' b, of 0] show ?thesis by blast
qed



text \<open>
  C7 (timing monotonicity). From a reset controller, with \<open>step\<close> called once per sample
  at the times \<open>0, 1 / sr, 2 / sr, ...\<close> of the simulator loop (\<open>sr > 0\<close>), the values of
  \<open>blank_until\<close> and of \<open>refract_until\<close> before the first step and after each step form
  non-decreasing sequences: no step assigns either field a value below its current one.
  The blanking and refractory periods only have to be at least \<open>-10^9\<close> seconds, which
  every non-negative period is.
\<close>

theorem timers_monotone:
  assumes "0 < sr" and "- (10 ^ 9) \<le> blanking_s c" and "- (10 ^ 9) \<le> pm_refractory_s c"
  shows "nondecreasing (map blank_until
             (controller_reset c # states (sim_steps sr 0 (controller_reset c) inputs)))
     \<and> nondecreasing (map refract_until
             (controller_reset c # states (sim_steps sr 0 (controller_reset c) inputs)))"
proof -
  have b: "blank_until (controller_reset c) \<le> real 0 * (1 / sr) + blanking_s (controller_reset c)"
    using assms(2) by (simp add: controller_reset_def)
  have r: "refract_until (controller_reset c) \<le> real 0 * (1 / sr) + pm_refractory_s (controller_reset c)"
    using assms(3) by (simp add: controller_reset_def)
  from timers_sorted [OF assms(1) b r] show ?thesis .
qed

text \<open>C7 at the default controller sampled once per second, over a pace followed by an accepted sense.\<close>

theorem timers_monotone_witness:
  "(0::real) < 1 \<and> - (10 ^ 9) \<le> blanking_s (demo_controller_at 1)
   \<and> - (10 ^ 9) \<le> pm_refractory_s (demo_controller_at 1)
   \<and> map blank_until (controller_reset (demo_controller_at 1)
        # states (sim_steps 1 0 (controller_reset (demo_controller_at 1))
            [(False, 0), (True, 0)]))
      = [- (10 ^ 9), 1 / 25, 1 / 25]
   \<and> map refract_until (controller_reset (demo_controller_at 1)
        # states (sim_steps 1 0 (controller_reset (demo_controller_at 1))
            [(False, 0), (True, 0)]))
      = [- (10 ^ 9), - (10 ^ 9), 6 / 5]
   \<and> nondecreasing (map blank_until (controller_reset (demo_controller_at 1)
        # states (sim_steps 1 0 (controller_reset (demo_controller_at 1))
            [(False, 0), (True, 0)])))
   \<and> nondecreasing (map refract_until (controller_reset (demo_controller_at 1)
        # states (sim_steps 1 0 (controller_reset (demo_controller_at 1))
            [(False, 0), (True, 0)])))"
proof -
  have a: "(0::real) < 1" by simp
  have b: "- (10 ^ 9) \<le> blanking_s (demo_controller_at 1)"
    by (simp add: demo_controller_at_def demo_controller_def controller_reset_def)
  have c: "- (10 ^ 9) \<le> pm_refractory_s (demo_controller_at 1)"
    by (simp add: demo_controller_at_def demo_controller_def controller_reset_def)
  have d: "map blank_until (controller_reset (demo_controller_at 1)
        # states (sim_steps 1 0 (controller_reset (demo_controller_at 1))
            [(False, 0), (True, 0)]))
      = [- (10 ^ 9), 1 / 25, 1 / 25]"
    by (simp add: states_def step_def Let_def demo_controller_at_def demo_controller_def controller_reset_def one_plus_exp_pos)
  have e: "map refract_until (controller_reset (demo_controller_at 1)
        # states (sim_steps 1 0 (controller_reset (demo_controller_at 1))
            [(False, 0), (True, 0)]))
      = [- (10 ^ 9), - (10 ^ 9), 6 / 5]"
    by (simp add: states_def step_def Let_def demo_controller_at_def demo_controller_def controller_reset_def one_plus_exp_pos)
  from timers_monotone [OF a b c, of "[(False, 0), (True, 0)]"] a b c d e
  show ?thesis by blast
qed




text \<open>
  C4 as stated fails: both constructors accept a negative sample rate, a negative lower
  rate, negative durations and non-positive time constants, and store what they are
  given.
\<close>

theorem init_accepts_nonpositive_counterexample:
  "controller_init (- 250) ''VVI'' (- 50) (- 40) (- 200) (5 / 2) (- (1 / 2)) (11 / 10)
     = Inr \<lparr>pm_fs = - 250, mode = ''VVI'', escape_interval_s = - (6 / 5),
            blanking_s = - (1 / 25), pm_refractory_s = - (1 / 5), pulse_amp = 5 / 2,
            pulse_width_s = - (1 / 2000), capture_threshold = 11 / 10,
            last_event_time = - (10 ^ 9), blank_until = - (10 ^ 9),
            refract_until = - (10 ^ 9), pacing_history = [], sensed_history = []\<rparr>
   \<and> detector_init (- 250) None (- (3 / 100)) 0 (15 / 100) (25 / 100) 0 0 10 (18 / 100)
        (- 150) (8 / 10000) (- 1) (- 6)
     = Inr \<lparr>fs = - 250, dt = - (1 / 250), tau_m = - (3 / 100), tau_theta = 0,
            theta_base = 3 / 20, theta_inc = 1 / 4, v_reset = 0, v_rest = 0,
            gain = 10, dead_zone = 9 / 50, refractory_s = - (3 / 20),
            homeo_rate = 1 / 1250, target_spikes_per_sec = - 1, homeo_window_s = - 6,
            spike_times = [], v = [], theta = []\<rparr>"
  by (simp add: controller_init_def controller_reset_def detector_init_def)

text \<open>
  C4, as amended. The constructors validate nothing. Constructing a detector fails exactly
  when \<^verbatim>\<open>fs\<close> is zero and \<^verbatim>\<open>dt\<close> is not given, constructing a controller
  fails exactly when \<^verbatim>\<open>lower_rate_bpm\<close> is zero, and the failure is Python's
  \<^verbatim>\<open>ZeroDivisionError\<close>; every other argument tuple is accepted.
\<close>

theorem init_fails_only_on_zero_division:
  "(detector_init fs_arg dt_arg tau_m_arg tau_theta_arg theta_base_arg theta_inc_arg
       v_reset_arg v_rest_arg gain_arg dead_zone_arg refractory_ms homeo_rate_arg
       target_arg homeo_window_arg = Inl e)
     = (dt_arg = None \<and> fs_arg = 0 \<and> e = ZeroDivisionError)
   \<and> (controller_init pm_fs_arg mode_arg lower_rate_bpm blanking_ms pm_refractory_ms
       pulse_amplitude_mV pulse_width_ms capture_threshold_mV = Inl e')
     = (lower_rate_bpm = 0 \<and> e' = ZeroDivisionError)"
  by (auto simp: controller_init_def detector_init_def)

text \<open>C4 as amended, at a zero sample rate, a zero lower rate and a negative lower rate.\<close>

theorem init_fails_only_on_zero_division_witness:
  "detector_init 0 None (3 / 100) (7 / 10) (15 / 100) (25 / 100) 0 0 10 (18 / 100)
        150 (8 / 10000) 1 6 = Inl ZeroDivisionError
   \<and> controller_init 250 ''VVI'' 0 40 200 (5 / 2) (1 / 2) (11 / 10) = Inl ZeroDivisionError
   \<and> controller_init 250 ''VVI'' (- 50) 40 200 (5 / 2) (1 / 2) (11 / 10) \<noteq> Inl ZeroDivisionError"
  using init_fails_only_on_zero_division [of 0 None "3 / 100" "7 / 10" "15 / 100" "25 / 100" 0 0 10
      "18 / 100" 150 "8 / 10000" 1 6 ZeroDivisionError 250 "''VVI''" 0 40 200 "5 / 2" "1 / 2"
      "11 / 10" ZeroDivisionError]
    init_fails_only_on_zero_division [of 0 None "3 / 100" "7 / 10" "15 / 100" "25 / 100" 0 0 10
      "18 / 100" 150 "8 / 10000" 1 6 ZeroDivisionError 250 "''VVI''" "- 50" 40 200 "5 / 2" "1 / 2"
      "11 / 10" ZeroDivisionError]
  by simp

section \<open>Properties of the detector\<close>

subsection \<open>Auxiliary facts about the loop of \<open>run\<close>\<close>

lemma run_iter_unfold:
  assumes "Suc t < length (v d)"
  shows "run_iter I_t t (d, sp, l) =
    (if fs d = 0 \<or> py_int (homeo_window_s d * fs d) = 0 then Inl ZeroDivisionError
     else
       let f = fires d I_t t l;
           sts = (if f then spike_times d @ [real (Suc t) / fs d] else spike_times d)
       in Inr (d\<lparr>v := (v d)[Suc t := if f then v_reset d else integrated d I_t t],
                 theta := (theta d)[Suc t := if f then theta d ! t + theta_inc d
                     else theta d ! t + dt d * (- (theta d ! t - theta_base d) / tau_theta d)],
                 spike_times := sts,
                 theta_base := if homeo_due d t then homeo_theta_base d sts t else theta_base d\<rparr>,
               if f then sp[Suc t := 1] else sp,
               if f then real t / fs d else l))"
  using assms
  by (simp add: run_iter_def Let_def fires_def integrated_def homeo_due_def homeo_theta_base_def)

lemma same_config_refl: "same_config d d"
  by (simp add: same_config_def)

lemma same_config_trans: "same_config d d' \<Longrightarrow> same_config d' d'' \<Longrightarrow> same_config d d''"
  by (simp add: same_config_def)

lemma same_config_reset: "same_config d (detector_reset d n)"
  by (simp add: same_config_def detector_reset_def)

lemma run_iter_Inr:
  assumes "Suc t < length (v d)" and "run_iter I_t t (d, sp, l) = Inr (d', sp', l')"
  shows "fs d \<noteq> 0" and "py_int (homeo_window_s d * fs d) \<noteq> 0"
    and "same_config d d'"
    and "v d' = (v d)[Suc t := if fires d I_t t l then v_reset d else integrated d I_t t]"
    and "theta d' = (theta d)[Suc t := if fires d I_t t l then theta d ! t + theta_inc d
                     else theta d ! t + dt d * (- (theta d ! t - theta_base d) / tau_theta d)]"
    and "spike_times d' = (if fires d I_t t l then spike_times d @ [real (Suc t) / fs d]
                           else spike_times d)"
    and "theta_base d' = (if homeo_due d t then homeo_theta_base d (spike_times d') t
                          else theta_base d)"
    and "sp' = (if fires d I_t t l then sp[Suc t := 1] else sp)"
    and "l' = (if fires d I_t t l then real t / fs d else l)"
  using assms(2) unfolding run_iter_unfold [OF assms(1)]
  by (auto simp: Let_def same_config_def split: if_splits)


lemma run_loop_append:
  "run_loop I_t (xs @ ys) st =
     (case run_loop I_t xs st of Inl e \<Rightarrow> Inl e | Inr st' \<Rightarrow> run_loop I_t ys st')"
  by (induction xs arbitrary: st) (auto split: sum.splits)

lemma drive_current_reset: "drive_current (detector_reset d n) ecg = drive_current d ecg"
  by (simp add: drive_current_def detector_reset_def)

lemma loop_state_0:
  "loop_state d ecg 0 = Inr (detector_reset d (length ecg), replicate (length ecg) 0, - (10 ^ 9))"
  by (simp add: loop_state_def Let_def)

lemma loop_state_Suc:
  "loop_state d ecg (Suc k) =
     (case loop_state d ecg k of Inl e \<Rightarrow> Inl e
      | Inr st \<Rightarrow> run_iter (drive_current d ecg) k st)"
  by (simp add: loop_state_def Let_def run_loop_append drive_current_reset split: sum.splits)

lemma loop_state_prefix:
  assumes "loop_state d ecg k' = Inr st'" and "k \<le> k'"
  shows "\<exists>st. loop_state d ecg k = Inr st"
proof -
  have "[0..<k'] = [0..<k] @ [k..<k']" using assms(2)
    by (metis le_add_diff_inverse upt_add_eq_append zero_le)
  then show ?thesis using assms(1)
    by (auto simp: loop_state_def Let_def run_loop_append split: sum.splits)
qed

lemma run_loop_state:
  "run d ecg = (if ecg = [] then Inl ValueError
     else case loop_state d ecg (length ecg - 1) of Inl e \<Rightarrow> Inl e
          | Inr (d', spikes, last_spike_time) \<Rightarrow>
              Inr (d', drive_current d ecg, v d', theta d', spikes))"
  by (simp add: run_def loop_state_def Let_def drive_current_reset)

lemma loop_ok_state:
  assumes "loop_state d ecg k = Inr st" and "k < length ecg"
  shows "loop_ok d (length ecg) st"
  using assms
proof (induction k arbitrary: st)
  case 0
  then show ?case
    using same_config_reset [of d "length ecg"]
    by (auto simp: loop_state_0 loop_ok_def detector_reset_def)
next
  case (Suc k)
  from Suc.prems(1) obtain dk sp l where p: "loop_state d ecg k = Inr (dk, sp, l)"
    and it: "run_iter (drive_current d ecg) k (dk, sp, l) = Inr st"
    by (auto simp: loop_state_Suc split: sum.splits)
  from Suc.IH [OF p] Suc.prems(2) have ok: "loop_ok d (length ecg) (dk, sp, l)" by simp
  obtain d' sp' l' where st: "st = (d', sp', l')" by (cases st)
  have len: "Suc k < length (v dk)" using ok Suc.prems(2) by (simp add: loop_ok_def)
  note r = run_iter_Inr [OF len it [unfolded st]]
  show ?case using ok r(3,4,5,8) same_config_trans [of d dk d']
    by (auto simp: st loop_ok_def)
qed

lemma same_config_due: "same_config d dk \<Longrightarrow> homeo_due dk t = homeo_due d t"
  by (simp add: same_config_def homeo_due_def)



lemma np_clip_range: "lo \<le> hi \<Longrightarrow> lo \<le> np_clip x lo hi \<and> np_clip x lo hi \<le> hi"
  by (auto simp: np_clip_def)

lemma homeo_theta_base_range:
  "1 / 1000 \<le> homeo_theta_base d sts t \<and> homeo_theta_base d sts t \<le> 1"
  unfolding homeo_theta_base_def by (rule np_clip_range) simp

lemma loop_state_step:
  assumes "loop_state d ecg (Suc t) = Inr (d', sp', l')" and "Suc t < length ecg"
  obtains dk sp l where "loop_state d ecg t = Inr (dk, sp, l)"
    and "run_iter (drive_current d ecg) t (dk, sp, l) = Inr (d', sp', l')"
    and "loop_ok d (length ecg) (dk, sp, l)" and "Suc t < length (v dk)"
proof -
  from assms(1) obtain dk sp l where p: "loop_state d ecg t = Inr (dk, sp, l)"
    and it: "run_iter (drive_current d ecg) t (dk, sp, l) = Inr (d', sp', l')"
    by (auto simp: loop_state_Suc split: sum.splits)
  from loop_ok_state [OF p] assms(2) have ok: "loop_ok d (length ecg) (dk, sp, l)" by simp
  have len: "Suc t < length (v dk)" using ok assms(2) by (simp add: loop_ok_def)
  from p it ok len show ?thesis by (rule that)
qed

lemma theta_base_after_update:
  assumes "loop_state d ecg (Suc t) = Inr (d', sp', l')" and "Suc t < length ecg"
    and "homeo_due d t"
  shows "1 / 1000 \<le> theta_base d' \<and> theta_base d' \<le> 1"
proof -
  from assms(1,2) obtain dk sp l where it: "run_iter (drive_current d ecg) t (dk, sp, l) = Inr (d', sp', l')"
    and ok: "loop_ok d (length ecg) (dk, sp, l)" and len: "Suc t < length (v dk)"
    by (rule loop_state_step)
  have "homeo_due dk t" using ok assms(3) same_config_due [of d dk t] by (simp add: loop_ok_def)
  with run_iter_Inr(7) [OF len it] homeo_theta_base_range [of dk "spike_times d'" t]
  show ?thesis by simp
qed

lemma theta_base_stays:
  assumes "loop_state d ecg k = Inr (d', sp', l')" and "k < length ecg"
    and "1 / 1000 \<le> theta_base d \<and> theta_base d \<le> 1"
  shows "1 / 1000 \<le> theta_base d' \<and> theta_base d' \<le> 1"
  using assms(1,2)
proof (induction k arbitrary: d' sp' l')
  case 0
  then show ?case using assms(3) by (auto simp: loop_state_0 detector_reset_def)
next
  case (Suc k)
  from Suc.prems obtain dk sp l where p: "loop_state d ecg k = Inr (dk, sp, l)"
    and it: "run_iter (drive_current d ecg) k (dk, sp, l) = Inr (d', sp', l')"
    and len: "Suc k < length (v dk)"
    by (rule loop_state_step)
  from Suc.IH [OF p] Suc.prems(2) have "1 / 1000 \<le> theta_base dk \<and> theta_base dk \<le> 1" by simp
  with run_iter_Inr(7) [OF len it] homeo_theta_base_range [of dk "spike_times d'" k]
  show ?case by (simp split: if_splits)
qed




lemma spikes_shape:
  assumes "loop_state d ecg k = Inr (dk, sp, l)" and "k < length ecg"
  shows "sp ! 0 = 0 \<and> (\<forall>i. k < i \<and> i < length ecg \<longrightarrow> sp ! i = 0)"
  using assms
proof (induction k arbitrary: dk sp l)
  case 0
  then show ?case by (auto simp: loop_state_0)
next
  case (Suc k)
  from Suc.prems obtain dj sj lj where p: "loop_state d ecg k = Inr (dj, sj, lj)"
    and it: "run_iter (drive_current d ecg) k (dj, sj, lj) = Inr (dk, sp, l)"
    and len: "Suc k < length (v dj)"
    by (rule loop_state_step)
  from Suc.IH [OF p] Suc.prems(2)
  have ih: "sj ! 0 = 0 \<and> (\<forall>i. k < i \<and> i < length ecg \<longrightarrow> sj ! i = 0)" by simp
  from run_iter_Inr(8) [OF len it] ih show ?case by auto
qed


lemma spike_times_filter:
  assumes "loop_state d ecg k = Inr (dk, sp, l)" and "k < length ecg"
  shows "spike_times dk = map (\<lambda>i. real i / fs d) (filter (\<lambda>i. sp ! i = 1) [0..<Suc k])"
  using assms
proof (induction k arbitrary: dk sp l)
  case 0
  then show ?case by (auto simp: loop_state_0 detector_reset_def)
next
  case (Suc k)
  from Suc.prems obtain dj sj lj where p: "loop_state d ecg k = Inr (dj, sj, lj)"
    and it: "run_iter (drive_current d ecg) k (dj, sj, lj) = Inr (dk, sp, l)"
    and ok: "loop_ok d (length ecg) (dj, sj, lj)"
    and len: "Suc k < length (v dj)"
    by (rule loop_state_step)
  from Suc.IH [OF p] Suc.prems(2)
  have ih: "spike_times dj = map (\<lambda>i. real i / fs d) (filter (\<lambda>i. sj ! i = 1) [0..<Suc k])"
    by simp
  have c: "fs dj = fs d" "length sj = length ecg"
    using ok by (simp_all add: loop_ok_def same_config_def)
  from spikes_shape [OF p] Suc.prems(2) have z: "sj ! Suc k = 0" by simp
  note r = run_iter_Inr [OF len it]
  have same: "filter (\<lambda>i. sp ! i = 1) [0..<Suc k] = filter (\<lambda>i. sj ! i = 1) [0..<Suc k]"
    by (rule filter_cong) (auto simp: r(8))
  have e: "[0..<Suc (Suc k)] = [0..<Suc k] @ [Suc k]" by simp
  show ?case
  proof (cases "fires dj (drive_current d ecg) k lj")
    case False
    then have "sp ! Suc k = 0" using r(8) z by simp
    moreover have "spike_times dk = spike_times dj" using False r(6) by simp
    ultimately show ?thesis unfolding e filter_append map_append same ih by simp
  next
    case True
    then have "sp ! Suc k = 1" using r(8) c Suc.prems(2) by simp
    moreover have "spike_times dk = spike_times dj @ [real (Suc k) / fs d]"
      using True r(6) c by simp
    ultimately show ?thesis unfolding e filter_append map_append same ih by simp
  qed
qed


lemma loop_frame:
  assumes "k \<le> k'" and "k' < length ecg"
    and "loop_state d ecg k = Inr (dk, sp, l)" and "loop_state d ecg k' = Inr (dk', sp', l')"
    and "i \<le> k"
  shows "v dk' ! i = v dk ! i \<and> theta dk' ! i = theta dk ! i \<and> sp' ! i = sp ! i"
  using assms(1,2,4)
proof (induction k' arbitrary: dk' sp' l' rule: dec_induct)
  case base
  then show ?case using assms(3) by simp
next
  case (step n)
  from step.prems(2,1) obtain dj sj lj where p: "loop_state d ecg n = Inr (dj, sj, lj)"
    and it: "run_iter (drive_current d ecg) n (dj, sj, lj) = Inr (dk', sp', l')"
    and len: "Suc n < length (v dj)"
    by (rule loop_state_step)
  from step.IH [OF _ p] step.prems(1)
  have ih: "v dj ! i = v dk ! i \<and> theta dj ! i = theta dk ! i \<and> sj ! i = sp ! i" by simp
  have ne: "i \<noteq> Suc n" using assms(5) step.hyps(1) by simp
  note r = run_iter_Inr [OF len it]
  show ?case using ih ne r(4,5,8) by (auto simp: nth_list_update_neq)
qed

lemma run_Inr:
  assumes "run d ecg = Inr (d', I_t, vs, ths, spikes)"
  obtains lf where "ecg \<noteq> []" and "loop_state d ecg (length ecg - 1) = Inr (d', spikes, lf)"
    and "I_t = drive_current d ecg" and "vs = v d'" and "ths = theta d'"
  using assms unfolding run_loop_state by (auto split: if_splits sum.splits)

lemma iteration_facts:
  assumes "run d ecg = Inr (d', I_t, vs, ths, spikes)" and "Suc t < length ecg"
  obtains d_t sp_t l_t d_n sp_n l_n where
    "loop_state d ecg t = Inr (d_t, sp_t, l_t)"
    and "loop_state d ecg (Suc t) = Inr (d_n, sp_n, l_n)"
    and "same_config d d_t"
    and "vs ! t = v d_t ! t" and "ths ! t = theta d_t ! t"
    and "spikes ! Suc t = (if fires d_t I_t t l_t then 1 else 0)"
    and "vs ! Suc t = (if fires d_t I_t t l_t then v_reset d else integrated d_t I_t t)"
    and "ths ! Suc t = (if fires d_t I_t t l_t then ths ! t + theta_inc d
           else ths ! t + dt d * (- (ths ! t - theta_base d_t) / tau_theta d))"
    and "spike_times d_n = (if fires d_t I_t t l_t then spike_times d_t @ [real (Suc t) / fs d]
           else spike_times d_t)"
    and "\<forall>i\<le>t. spikes ! i = sp_t ! i"
proof -
  from assms(1) obtain lf where ne: "ecg \<noteq> []"
    and fin: "loop_state d ecg (length ecg - 1) = Inr (d', spikes, lf)"
    and I: "I_t = drive_current d ecg" and vs: "vs = v d'" and ths: "ths = theta d'"
    by (rule run_Inr)
  have le: "Suc t \<le> length ecg - 1" "length ecg - 1 < length ecg" using assms(2) by simp_all
  from loop_state_prefix [OF fin le(1)] obtain d_n sp_n l_n
    where n: "loop_state d ecg (Suc t) = Inr (d_n, sp_n, l_n)" by (metis prod_cases3)
  from n assms(2) obtain d_t sp_t l_t where p: "loop_state d ecg t = Inr (d_t, sp_t, l_t)"
    and it: "run_iter (drive_current d ecg) t (d_t, sp_t, l_t) = Inr (d_n, sp_n, l_n)"
    and ok: "loop_ok d (length ecg) (d_t, sp_t, l_t)" and len: "Suc t < length (v d_t)"
    by (rule loop_state_step)
  have c: "same_config d d_t" "length (theta d_t) = length ecg" "length sp_t = length ecg"
    using ok by (simp_all add: loop_ok_def)
  have cf: "v_reset d_t = v_reset d" "theta_inc d_t = theta_inc d" "dt d_t = dt d"
    "tau_theta d_t = tau_theta d" "fs d_t = fs d"
    using c(1) by (simp_all add: same_config_def)
  note r = run_iter_Inr [OF len it]
  have fn: "v d' ! Suc t = v d_n ! Suc t \<and> theta d' ! Suc t = theta d_n ! Suc t
      \<and> spikes ! Suc t = sp_n ! Suc t"
    by (rule loop_frame [OF le(1) le(2) n fin]) simp
  have ft: "\<And>i. i \<le> t \<Longrightarrow> v d' ! i = v d_t ! i \<and> theta d' ! i = theta d_t ! i
      \<and> spikes ! i = sp_t ! i"
    using loop_frame [OF _ le(2) p fin] le(1) by simp
  from spikes_shape [OF p] assms(2) have z: "sp_t ! Suc t = 0" by simp
  have 1: "vs ! t = v d_t ! t" and 2: "ths ! t = theta d_t ! t" using ft [of t] vs ths by simp_all
  have 3: "spikes ! Suc t = (if fires d_t I_t t l_t then 1 else 0)"
    using fn r(8) z c(3) assms(2) I by simp
  have 4: "vs ! Suc t = (if fires d_t I_t t l_t then v_reset d else integrated d_t I_t t)"
    using fn r(4) len vs cf I by simp
  have 5: "ths ! Suc t = (if fires d_t I_t t l_t then ths ! t + theta_inc d
           else ths ! t + dt d * (- (ths ! t - theta_base d_t) / tau_theta d))"
    using fn r(5) c(2) assms(2) ths cf I 2 by simp
  have 6: "spike_times d_n = (if fires d_t I_t t l_t then spike_times d_t @ [real (Suc t) / fs d]
           else spike_times d_t)"
    using r(6) cf I by simp
  have 7: "\<forall>i\<le>t. spikes ! i = sp_t ! i" using ft by simp
  from p n c(1) 1 2 3 4 5 6 7 show ?thesis by (rule that)
qed

lemma spike_times_of_run:
  assumes "run d ecg = Inr (d', I_t, vs, ths, spikes)"
  shows "spike_times d' = map (\<lambda>i. real i / fs d) (filter (\<lambda>i. spikes ! i = 1) [0..<length ecg])"
proof -
  from assms obtain lf where ne: "ecg \<noteq> []"
    and fin: "loop_state d ecg (length ecg - 1) = Inr (d', spikes, lf)"
    by (rule run_Inr)
  have lt: "length ecg - 1 < length ecg" and e: "Suc (length ecg - 1) = length ecg"
    using ne by simp_all
  from spike_times_filter [OF fin lt] show ?thesis unfolding e by simp
qed








lemma two_beats_run:
  "run detector_10hz two_beats =
     Inr (two_beats_detector, [491 / 5, 0, 0, 491 / 5, 0, 0], [0, 0, 0, 0, 0, 0],
          [3 / 20, 2 / 5, 51 / 140, 327 / 980, 143 / 245, 446983 / 857500],
          [0, 1, 0, 0, 1, 0])"
  by code_simp

lemma two_beats_state1:
  "loop_state detector_10hz two_beats 1 =
     Inr (detector_10hz\<lparr>spike_times := [1 / 10], v := [0, 0, 0, 0, 0, 0],
            theta := [3 / 20, 2 / 5, 3 / 20, 3 / 20, 3 / 20, 3 / 20]\<rparr>,
          [0, 1, 0, 0, 0, 0], 0)"
  by code_simp

lemma two_beats_state3:
  "loop_state detector_10hz two_beats 3 =
     Inr (detector_10hz\<lparr>theta_base := 367 / 2500, spike_times := [1 / 10],
            v := [0, 0, 0, 0, 0, 0],
            theta := [3 / 20, 2 / 5, 51 / 140, 327 / 980, 3 / 20, 3 / 20]\<rparr>,
          [0, 1, 0, 0, 0, 0], 0)"
  by code_simp

subsection \<open>Claims about the detector\<close>

text \<open>
  C8 (per-step detector semantics). Let \<open>run\<close> return \<open>(I_t, vs, ths, spikes)\<close> and let
  \<open>t + 1\<close> be a sample index. The loop reaches iteration \<open>t\<close> in a state
  \<open>(d_t, sp_t, last_t)\<close> and leaves it in a state \<open>(d_n, sp_n, last_n)\<close>. The entry
  \<open>spikes[t+1]\<close> is 0 or 1, and it is 1 exactly when the step is outside the refractory
  window (\<open>t/fs - last_t \<ge> refractory_s\<close>) and the integrated potential
  \<open>vs[t] + dt * (-(vs[t] - v_rest)/tau_m + I_t[t])\<close> reaches \<open>ths[t]\<close>. Without a spike,
  \<open>vs[t+1]\<close> is the integrated potential and \<open>ths[t+1]\<close> relaxes towards the value
  \<open>theta_base\<close> has at that iteration. With a spike, \<open>vs[t+1] = v_reset\<close>,
  \<open>ths[t+1] = ths[t] + theta_inc\<close>, and \<open>(t+1)/fs\<close> is appended to \<open>spike_times\<close> (and
  is in the final \<open>spike_times\<close>).
\<close>

theorem detector_step_semantics:
  assumes "run d ecg = Inr (d', I_t, vs, ths, spikes)" and "Suc t < length ecg"
  shows "\<exists>d_t sp_t last_t d_n sp_n last_n.
      loop_state d ecg t = Inr (d_t, sp_t, last_t)
    \<and> loop_state d ecg (Suc t) = Inr (d_n, sp_n, last_n)
    \<and> (spikes ! Suc t = 0 \<or> spikes ! Suc t = 1)
    \<and> (spikes ! Suc t = 1) =
        (\<not> (real t / fs d - last_t < refractory_s d)
          \<and> vs ! t + dt d * (- (vs ! t - v_rest d) / tau_m d + I_t ! t) \<ge> ths ! t)
    \<and> (spikes ! Suc t = 0 \<longrightarrow>
          vs ! Suc t = vs ! t + dt d * (- (vs ! t - v_rest d) / tau_m d + I_t ! t)
        \<and> ths ! Suc t = ths ! t + dt d * (- (ths ! t - theta_base d_t) / tau_theta d)
        \<and> spike_times d_n = spike_times d_t)
    \<and> (spikes ! Suc t = 1 \<longrightarrow>
          vs ! Suc t = v_reset d
        \<and> ths ! Suc t = ths ! t + theta_inc d
        \<and> spike_times d_n = spike_times d_t @ [real (Suc t) / fs d]
        \<and> real (Suc t) / fs d \<in> set (spike_times d'))"
proof -
  from assms obtain d_t sp_t l_t d_n sp_n l_n where
    p: "loop_state d ecg t = Inr (d_t, sp_t, l_t)"
    and n: "loop_state d ecg (Suc t) = Inr (d_n, sp_n, l_n)"
    and c: "same_config d d_t"
    and v: "vs ! t = v d_t ! t" and th: "ths ! t = theta d_t ! t"
    and s: "spikes ! Suc t = (if fires d_t I_t t l_t then 1 else 0)"
    and vn: "vs ! Suc t = (if fires d_t I_t t l_t then v_reset d else integrated d_t I_t t)"
    and tn: "ths ! Suc t = (if fires d_t I_t t l_t then ths ! t + theta_inc d
           else ths ! t + dt d * (- (ths ! t - theta_base d_t) / tau_theta d))"
    and st: "spike_times d_n = (if fires d_t I_t t l_t then spike_times d_t @ [real (Suc t) / fs d]
           else spike_times d_t)"
    by (rule iteration_facts)
  have int: "integrated d_t I_t t = vs ! t + dt d * (- (vs ! t - v_rest d) / tau_m d + I_t ! t)"
    using c v by (simp add: integrated_def same_config_def)
  have f: "fires d_t I_t t l_t =
      (\<not> (real t / fs d - l_t < refractory_s d)
        \<and> vs ! t + dt d * (- (vs ! t - v_rest d) / tau_m d + I_t ! t) \<ge> ths ! t)"
    using c th int by (simp add: fires_def same_config_def)
  have mem: "spikes ! Suc t = 1 \<Longrightarrow> real (Suc t) / fs d \<in> set (spike_times d')"
  proof -
    assume "spikes ! Suc t = 1"
    then have "Suc t \<in> set (filter (\<lambda>i. spikes ! i = 1) [0..<length ecg])"
      using assms(2) by simp
    then have "(\<lambda>i. real i / fs d) (Suc t)
        \<in> (\<lambda>i. real i / fs d) ` set (filter (\<lambda>i. spikes ! i = 1) [0..<length ecg])"
      by (rule imageI)
    then show ?thesis unfolding spike_times_of_run [OF assms(1)] set_map .
  qed
  show ?thesis
    apply (rule exI [of _ d_t], rule exI [of _ sp_t], rule exI [of _ l_t])
    apply (rule exI [of _ d_n], rule exI [of _ sp_n], rule exI [of _ l_n])
    using p n s vn tn st int f mem by (auto split: if_splits)
qed

text \<open>C8 on the two-beat signal: the spike at sample 1 and the spike-free step to sample 2.\<close>

theorem detector_step_semantics_witness:
  "run detector_10hz two_beats =
     Inr (two_beats_detector, [491 / 5, 0, 0, 491 / 5, 0, 0], [0, 0, 0, 0, 0, 0],
          [3 / 20, 2 / 5, 51 / 140, 327 / 980, 143 / 245, 446983 / 857500],
          [0, 1, 0, 0, 1, 0])
   \<and> Suc 0 < length two_beats \<and> [0, 1, 0, 0, 1, 0 :: int] ! Suc 0 = 1
   \<and> [0, 0, 0, 0, 0, 0 :: real] ! Suc 0 = v_reset detector_10hz
   \<and> [3 / 20, 2 / 5, 51 / 140, 327 / 980, 143 / 245, 446983 / 857500] ! Suc 0
       = [3 / 20, 2 / 5, 51 / 140, 327 / 980, 143 / 245, 446983 / 857500] ! 0
         + theta_inc detector_10hz
   \<and> real (Suc 0) / fs detector_10hz \<in> set (spike_times two_beats_detector)
   \<and> Suc 1 < length two_beats \<and> [0, 1, 0, 0, 1, 0 :: int] ! Suc 1 = 0
   \<and> [0, 0, 0, 0, 0, 0] ! Suc 1
       = [0, 0, 0, 0, 0, 0] ! 1 + dt detector_10hz
           * (- ([0, 0, 0, 0, 0, 0] ! 1 - v_rest detector_10hz) / tau_m detector_10hz
              + [491 / 5, 0, 0, 491 / 5, 0, 0] ! 1)
   \<and> [3 / 20, 2 / 5, 51 / 140, 327 / 980, 143 / 245, 446983 / 857500] ! Suc 1
       = [3 / 20, 2 / 5, 51 / 140, 327 / 980, 143 / 245, 446983 / 857500] ! 1
         + dt detector_10hz
           * (- ([3 / 20, 2 / 5, 51 / 140, 327 / 980, 143 / 245, 446983 / 857500] ! 1
                 - theta_base (detector_10hz\<lparr>spike_times := [1 / 10], v := [0, 0, 0, 0, 0, 0],
                      theta := [3 / 20, 2 / 5, 3 / 20, 3 / 20, 3 / 20, 3 / 20]\<rparr>))
              / tau_theta detector_10hz)"
proof -
  let ?sp = "[0, 1, 0, 0, 1, 0 :: int]"
  let ?vs = "[0, 0, 0, 0, 0, 0 :: real]"
  let ?ths = "[3 / 20, 2 / 5, 51 / 140, 327 / 980, 143 / 245, 446983 / 857500 :: real]"
  let ?d1 = "detector_10hz\<lparr>spike_times := [1 / 10], v := [0, 0, 0, 0, 0, 0],
            theta := [3 / 20, 2 / 5, 3 / 20, 3 / 20, 3 / 20, 3 / 20]\<rparr>"
  have len0: "Suc 0 < length two_beats" and len1: "Suc 1 < length two_beats"
    by (simp_all add: two_beats_def)
  have s0: "?sp ! Suc 0 = 1" and s1: "?sp ! Suc 1 = 0" by simp_all
  from detector_step_semantics [OF two_beats_run len0] s0
  have a: "?vs ! Suc 0 = v_reset detector_10hz
     \<and> ?ths ! Suc 0 = ?ths ! 0 + theta_inc detector_10hz
     \<and> real (Suc 0) / fs detector_10hz \<in> set (spike_times two_beats_detector)"
    by blast
  from detector_step_semantics [OF two_beats_run len1]
  obtain d_t sp_t last_t where
    p: "loop_state detector_10hz two_beats 1 = Inr (d_t, sp_t, last_t)"
    and q: "?sp ! Suc 1 = 0 \<longrightarrow>
          ?vs ! Suc 1 = ?vs ! 1 + dt detector_10hz
             * (- (?vs ! 1 - v_rest detector_10hz) / tau_m detector_10hz
                + [491 / 5, 0, 0, 491 / 5, 0, 0] ! 1)
        \<and> ?ths ! Suc 1 = ?ths ! 1 + dt detector_10hz
             * (- (?ths ! 1 - theta_base d_t) / tau_theta detector_10hz)"
    by blast
  from p two_beats_state1 have "d_t = ?d1" by simp
  with q s1
  have b: "?vs ! Suc 1 = ?vs ! 1 + dt detector_10hz
             * (- (?vs ! 1 - v_rest detector_10hz) / tau_m detector_10hz
                + [491 / 5, 0, 0, 491 / 5, 0, 0] ! 1)
        \<and> ?ths ! Suc 1 = ?ths ! 1 + dt detector_10hz
             * (- (?ths ! 1 - theta_base ?d1) / tau_theta detector_10hz)"
    by blast
  from two_beats_run len0 s0 a len1 s1 b show ?thesis by blast
qed






text \<open>
  C6 (threshold floor and ceiling). Immediately after every homeostatic update of every
  run (the state after iteration \<open>t\<close>, when the update is due at \<open>t\<close>), \<open>theta_base\<close>
  lies in \<open>[0.001, 1]\<close>, the bounds of the clamp. Hence a \<open>theta_base\<close> that starts
  within \<open>[0.001, 1]\<close> is within it in every loop state and in the detector that \<open>run\<close>
  returns.
\<close>

theorem theta_base_clamped:
  "(loop_state d ecg (Suc t) = Inr (d', sp', l') \<and> Suc t < length ecg \<and> homeo_due d t
      \<longrightarrow> 1 / 1000 \<le> theta_base d' \<and> theta_base d' \<le> 1)
   \<and> (loop_state d ecg k = Inr (dk, sp, l) \<and> k < length ecg
        \<and> 1 / 1000 \<le> theta_base d \<and> theta_base d \<le> 1
      \<longrightarrow> 1 / 1000 \<le> theta_base dk \<and> theta_base dk \<le> 1)
   \<and> (run d ecg = Inr (d'', I_t, vs, ths, spikes)
        \<and> 1 / 1000 \<le> theta_base d \<and> theta_base d \<le> 1
      \<longrightarrow> 1 / 1000 \<le> theta_base d'' \<and> theta_base d'' \<le> 1)"
proof (intro conjI impI)
  assume "loop_state d ecg (Suc t) = Inr (d', sp', l') \<and> Suc t < length ecg \<and> homeo_due d t"
  then show "1 / 1000 \<le> theta_base d'" "theta_base d' \<le> 1"
    using theta_base_after_update [of d ecg t d' sp' l'] by simp_all
next
  assume "loop_state d ecg k = Inr (dk, sp, l) \<and> k < length ecg
        \<and> 1 / 1000 \<le> theta_base d \<and> theta_base d \<le> 1"
  then show "1 / 1000 \<le> theta_base dk" "theta_base dk \<le> 1"
    using theta_base_stays [of d ecg k dk sp l] by simp_all
next
  assume a: "run d ecg = Inr (d'', I_t, vs, ths, spikes)
        \<and> 1 / 1000 \<le> theta_base d \<and> theta_base d \<le> 1"
  then obtain lf where ne: "ecg \<noteq> []"
    and fin: "loop_state d ecg (length ecg - 1) = Inr (d'', spikes, lf)"
    using run_Inr [of d ecg d'' I_t vs ths spikes] by blast
  have "length ecg - 1 < length ecg" using ne by simp
  from theta_base_stays [OF fin this] a
  show "1 / 1000 \<le> theta_base d''" "theta_base d'' \<le> 1" by simp_all
qed

text \<open>C6 on the two-beat signal, whose window of two samples makes the update due at iteration 2.\<close>

theorem theta_base_clamped_witness:
  "loop_state detector_10hz two_beats (Suc 2) =
     Inr (detector_10hz\<lparr>theta_base := 367 / 2500, spike_times := [1 / 10],
            v := [0, 0, 0, 0, 0, 0],
            theta := [3 / 20, 2 / 5, 51 / 140, 327 / 980, 3 / 20, 3 / 20]\<rparr>,
          [0, 1, 0, 0, 0, 0], 0)
   \<and> Suc 2 < length two_beats \<and> homeo_due detector_10hz 2
   \<and> 1 / 1000 \<le> theta_base detector_10hz \<and> theta_base detector_10hz \<le> 1
   \<and> run detector_10hz two_beats =
     Inr (two_beats_detector, [491 / 5, 0, 0, 491 / 5, 0, 0], [0, 0, 0, 0, 0, 0],
          [3 / 20, 2 / 5, 51 / 140, 327 / 980, 143 / 245, 446983 / 857500],
          [0, 1, 0, 0, 1, 0])
   \<and> 1 / 1000 \<le> theta_base (detector_10hz\<lparr>theta_base := 367 / 2500, spike_times := [1 / 10],
            v := [0, 0, 0, 0, 0, 0],
            theta := [3 / 20, 2 / 5, 51 / 140, 327 / 980, 3 / 20, 3 / 20]\<rparr>)
   \<and> theta_base (detector_10hz\<lparr>theta_base := 367 / 2500, spike_times := [1 / 10],
            v := [0, 0, 0, 0, 0, 0],
            theta := [3 / 20, 2 / 5, 51 / 140, 327 / 980, 3 / 20, 3 / 20]\<rparr>) \<le> 1
   \<and> 1 / 1000 \<le> theta_base two_beats_detector \<and> theta_base two_beats_detector \<le> 1"
proof -
  let ?d3 = "detector_10hz\<lparr>theta_base := 367 / 2500, spike_times := [1 / 10],
            v := [0, 0, 0, 0, 0, 0],
            theta := [3 / 20, 2 / 5, 51 / 140, 327 / 980, 3 / 20, 3 / 20]\<rparr>"
  have s: "loop_state detector_10hz two_beats (Suc 2) = Inr (?d3, [0, 1, 0, 0, 0, 0], 0)"
    using two_beats_state3 by (simp add: eval_nat_numeral)
  have len: "Suc 2 < length two_beats" by (simp add: two_beats_def)
  have due: "homeo_due detector_10hz 2" by code_simp
  have rng: "1 / 1000 \<le> theta_base detector_10hz \<and> theta_base detector_10hz \<le> 1"
    by (simp add: detector_10hz_def default_detector_def)
  from theta_base_clamped [of detector_10hz two_beats 2 ?d3 "[0, 1, 0, 0, 0, 0]" 0
      "Suc 2" ?d3 "[0, 1, 0, 0, 0, 0]" 0 two_beats_detector "[491 / 5, 0, 0, 491 / 5, 0, 0]"
      "[0, 0, 0, 0, 0, 0]" "[3 / 20, 2 / 5, 51 / 140, 327 / 980, 143 / 245, 446983 / 857500]"
      "[0, 1, 0, 0, 1, 0]"]
    s len due rng two_beats_run
  show ?thesis by blast
qed




end
